theory Spec2Isabelle
  imports Complex_Main
begin

section \<open>The banana-ripeness page: data model\<close>

text \<open>
  The page component of \<^verbatim>\<open>src/app/page.js\<close> keeps seven React state cells
  (\<^verbatim>\<open>mode\<close>, \<^verbatim>\<open>imageURL\<close>, \<^verbatim>\<open>imageBlob\<close>, \<^verbatim>\<open>stepIndex\<close>, \<^verbatim>\<open>error\<close>,
  \<^verbatim>\<open>result\<close>, \<^verbatim>\<open>busy\<close>) and two refs that matter to the workflow
  (\<^verbatim>\<open>streamRef\<close>, \<^verbatim>\<open>videoRef\<close>). Its handlers talk to three browser facilities:
  \<^verbatim>\<open>getUserMedia\<close> (camera streams), \<^verbatim>\<open>URL.createObjectURL\<close> (preview handles) and
  \<^verbatim>\<open>fetch\<close> (the classification service). The embedding puts the React cells, the
  refs and the part of the browser the handlers touch into one record, and every handler
  becomes a function on that record. What the browser answers at an \<^verbatim>\<open>await\<close> (camera
  granted or refused, frame encoded or not, the HTTP exchange) is an argument of the handler,
  and a handler runs to its end before the next event is taken.
\<close>

datatype mode = Idle | Camera | Preview | Analyzing | Result

text \<open>A JSON field read from JavaScript: \<^verbatim>\<open>undefined\<close>, \<^verbatim>\<open>null\<close>, or a value of the
  type the service contract gives it.\<close>

datatype 'a field = Absent | JNull | Present 'a

record warning_flags =
  too_dark :: "bool field"
  too_blurry :: "bool field"

text \<open>The response body. The field \<^verbatim>\<open>error\<close> of the body is called \<open>error_msg\<close> here,
  since \<open>error\<close> is the state cell of the page.\<close>

record response_data =
  is_banana :: "bool field"
  ripeness :: "string field"
  confidence :: "real field"
  banana_confidence :: "real field"
  warnings :: "warning_flags field"
  error_msg :: "string field"

text \<open>An image payload: a file the user picked, or the blob \<^verbatim>\<open>canvas.toBlob\<close> encoded
  from a canvas of the given width and height, with the given MIME type and quality.\<close>

datatype blob = UserFile nat | CanvasBlob nat nat string real

type_synonym stream = nat
type_synonym url = nat

record video =
  videoWidth :: nat
  videoHeight :: nat
  srcObject :: "stream option"

record request =
  req_url :: string
  req_method :: string
  req_field :: string
  req_blob :: blob
  req_filename :: string

record page =
  mode :: mode
  imageURL :: "url option"
  imageBlob :: "blob option"
  stepIndex :: int
  error :: "string option"
  result :: "response_data option"
  busy :: bool
  streamRef :: "stream option"
  videoRef :: "video option"
  liveStreams :: "stream list"
  nextStream :: stream
  objectURLs :: "url list"
  nextURL :: url
  sent :: "request list"
  stepLog :: "int list"

text \<open>
  \<open>result = None\<close> is \<^verbatim>\<open>null\<close> (a body that is the JSON literal \<^verbatim>\<open>null\<close> also gives
  \<open>None\<close>). \<open>liveStreams\<close> are the media streams obtained from \<^verbatim>\<open>getUserMedia\<close> whose
  tracks have not been stopped, \<open>objectURLs\<close> the object URLs created and not revoked,
  \<open>sent\<close> the requests issued, newest first. \<open>stepLog\<close> records every value passed to
  \<^verbatim>\<open>setStepIndex\<close>, oldest first; the page itself never reads it.
\<close>

datatype js_error = Error string

fun message :: "js_error \<Rightarrow> string" where
  "message (Error m) = m"

text \<open>What the browser answers at the awaits.\<close>

datatype camera_outcome =
    GetUserMediaRejected string
  | Granted nat nat "string option"
    \<comment> \<open>the stream's frame size as the video element reports it (0 when not yet known),
        and the message \<^verbatim>\<open>video.play()\<close> rejects with, if it does\<close>

datatype json_outcome = JsonRejected string | Parsed "response_data option"

datatype fetch_outcome =
    FetchRejected string
  | Responded bool json_outcome
    \<comment> \<open>\<^verbatim>\<open>res.ok\<close> and what \<^verbatim>\<open>res.json()\<close> settles to\<close>

definition API_URL :: string where
  "API_URL = ''https://banana-ripeness-backend.onrender.com/analyze''"

definition STAGES :: "string list" where
  "STAGES = [''Image Selected'', ''Banana Check'', ''Ripeness Result'']"

definition init :: page where
  "init = \<lparr> mode = Idle, imageURL = None, imageBlob = None, stepIndex = - 1,
      error = None, result = None, busy = False, streamRef = None, videoRef = None,
      liveStreams = [], nextStream = 0, objectURLs = [], nextURL = 0, sent = [],
      stepLog = [] \<rparr>"

section \<open>State setters and browser calls\<close>

definition setMode :: "mode \<Rightarrow> page \<Rightarrow> page" where
  "setMode m s = s\<lparr>mode := m\<rparr>"

definition setImageURL :: "url option \<Rightarrow> page \<Rightarrow> page" where
  "setImageURL u s = s\<lparr>imageURL := u\<rparr>"

definition setImageBlob :: "blob option \<Rightarrow> page \<Rightarrow> page" where
  "setImageBlob b s = s\<lparr>imageBlob := b\<rparr>"

definition setStepIndex :: "int \<Rightarrow> page \<Rightarrow> page" where
  "setStepIndex i s = s\<lparr>stepIndex := i, stepLog := stepLog s @ [i]\<rparr>"

definition setError :: "string option \<Rightarrow> page \<Rightarrow> page" where
  "setError e s = s\<lparr>error := e\<rparr>"

definition setResult :: "response_data option \<Rightarrow> page \<Rightarrow> page" where
  "setResult r s = s\<lparr>result := r\<rparr>"

definition setBusy :: "bool \<Rightarrow> page \<Rightarrow> page" where
  "setBusy b s = s\<lparr>busy := b\<rparr>"

text \<open>Statements in sequence, first to last.\<close>

fun stmts :: "('s \<Rightarrow> 's) list \<Rightarrow> 's \<Rightarrow> 's" where
  "stmts [] s = s"
| "stmts (f # fs) s = stmts fs (f s)"

text \<open>\<^verbatim>\<open>URL.createObjectURL\<close> hands out a fresh URL, which stays live until revoked.\<close>

definition createObjectURL :: "page \<Rightarrow> url \<times> page" where
  "createObjectURL s =
     (nextURL s, s\<lparr>objectURLs := nextURL s # objectURLs s, nextURL := Suc (nextURL s)\<rparr>)"

text \<open>A resolved \<^verbatim>\<open>getUserMedia\<close> hands out a fresh stream with running tracks.\<close>

definition getUserMedia :: "page \<Rightarrow> stream \<times> page" where
  "getUserMedia s =
     (nextStream s, s\<lparr>liveStreams := nextStream s # liveStreams s,
                       nextStream := Suc (nextStream s)\<rparr>)"

text \<open>React mounts the \<^verbatim>\<open><video>\<close> element exactly while \<^verbatim>\<open>mode === "camera"\<close> is
  rendered, and sets \<^verbatim>\<open>videoRef.current\<close> on mount and back to \<^verbatim>\<open>null\<close> on unmount.\<close>

definition render :: "page \<Rightarrow> page" where
  "render s =
     (if mode s = Camera
      then (case videoRef s of
              None \<Rightarrow> s\<lparr>videoRef := Some \<lparr>videoWidth = 0, videoHeight = 0, srcObject = None\<rparr>\<rparr>
            | Some v \<Rightarrow> s)
      else s\<lparr>videoRef := None\<rparr>)"

definition canAnalyze :: "page \<Rightarrow> bool" where
  "canAnalyze s = (imageBlob s \<noteq> None \<and> \<not> busy s)"

section \<open>The handlers\<close>

subsection \<open>Camera\<close>

text \<open>The body of the \<^verbatim>\<open>try\<close> of \<^verbatim>\<open>openCamera\<close>: \<open>Inl\<close> is a throw, with the state at the
  throw. The page is rendered while \<^verbatim>\<open>getUserMedia\<close> is awaited, which mounts the video
  element.\<close>

definition openCamera_try :: "camera_outcome \<Rightarrow> page \<Rightarrow> (js_error \<times> page) + page" where
  "openCamera_try out s =
     (let s1 = render (setMode Camera s) in
      case out of
        GetUserMediaRejected m \<Rightarrow> Inl (Error m, s1)
      | Granted w h play \<Rightarrow>
          (let (stream, s2) = getUserMedia s1;
               s3 = s2\<lparr>streamRef := Some stream\<rparr>
           in case videoRef s3 of
                None \<Rightarrow> Inr s3
              | Some v \<Rightarrow>
                  (let s4 = s3\<lparr>videoRef :=
                              Some (v\<lparr>srcObject := Some stream, videoWidth := w, videoHeight := h\<rparr>)\<rparr>
                   in case play of None \<Rightarrow> Inr s4 | Some m \<Rightarrow> Inl (Error m, s4))))"

definition openCamera :: "camera_outcome \<Rightarrow> page \<Rightarrow> page" where
  "openCamera out s =
     (let s0 = stmts [setError None, setResult None, setStepIndex (- 1)] s in
      case openCamera_try out s0 of
        Inr s' \<Rightarrow> s'
      | Inl (e, s') \<Rightarrow>
          stmts [setMode Idle,
                 setError (Some ''Camera access failed. Please allow camera permission or use Gallery upload.'')] s')"

definition stopCamera :: "page \<Rightarrow> page" where
  "stopCamera s =
     (case streamRef s of
        None \<Rightarrow> s
      | Some stream \<Rightarrow> s\<lparr>liveStreams := removeAll stream (liveStreams s), streamRef := None\<rparr>)"

definition closeCamera :: "page \<Rightarrow> page" where
  "closeCamera s = setMode Idle (stopCamera s)"

text \<open>\<^verbatim>\<open>x || d\<close> on a number of pixels: 0 is falsy.\<close>

definition or_default :: "nat \<Rightarrow> nat \<Rightarrow> nat" where
  "or_default x d = (if x = 0 then d else x)"

text \<open>\<open>encoded\<close> says whether \<^verbatim>\<open>canvas.toBlob\<close> calls back with a blob or with \<^verbatim>\<open>null\<close>.
  The canvas takes the size of the video frame and the frame is drawn over all of it, so
  the blob is described by that size, the MIME type and the quality asked for.\<close>

definition capturePhoto :: "bool \<Rightarrow> page \<Rightarrow> page" where
  "capturePhoto encoded s =
     (let s0 = stmts [setError None, setResult None] s in
      case videoRef s0 of
        None \<Rightarrow> s0
      | Some v \<Rightarrow>
          (let width = or_default (videoWidth v) 1280;
               height = or_default (videoHeight v) 720;
               blob = (if encoded then Some (CanvasBlob width height ''image/jpeg'' 0.92) else None)
           in case blob of
                None \<Rightarrow> setError (Some ''Could not capture image. Please try again.'') s0
              | Some b \<Rightarrow>
                  (let s1 = stopCamera s0;
                       (u, s2) = createObjectURL s1
                   in stmts [setImageURL (Some u), setImageBlob (Some b), setMode Preview] s2)))"

subsection \<open>Gallery\<close>

definition pickFromGallery :: "page \<Rightarrow> page" where
  "pickFromGallery s = stmts [setError None, setResult None, setStepIndex (- 1)] s"

text \<open>The argument is \<^verbatim>\<open>e.target.files?.[0]\<close>.\<close>

definition onFileSelected :: "nat option \<Rightarrow> page \<Rightarrow> page" where
  "onFileSelected file s =
     (case file of
        None \<Rightarrow> s
      | Some f \<Rightarrow>
          (let (u, s1) = createObjectURL s
           in stmts [setImageURL (Some u), setImageBlob (Some (UserFile f)), setMode Preview] s1))"

subsection \<open>Reset\<close>

definition resetAll :: "page \<Rightarrow> page" where
  "resetAll s =
     stmts [setMode Idle, setImageURL None, setImageBlob None, setResult None, setError None,
            setStepIndex (- 1), setBusy False] (stopCamera s)"

subsection \<open>Analyze\<close>

text \<open>\<^verbatim>\<open>data?.error || "Failed to analyze image."\<close>: the empty string is falsy.\<close>

definition service_message :: "response_data option \<Rightarrow> string" where
  "service_message data =
     (case data of
        None \<Rightarrow> ''Failed to analyze image.''
      | Some d \<Rightarrow>
          (case error_msg d of
             Present m \<Rightarrow> if m = [] then ''Failed to analyze image.'' else m
           | _ \<Rightarrow> ''Failed to analyze image.''))"

definition post :: "blob \<Rightarrow> page \<Rightarrow> page" where
  "post b s =
     s\<lparr>sent := \<lparr>req_url = API_URL, req_method = ''POST'', req_field = ''file'',
                 req_blob = b, req_filename = ''banana.jpg''\<rparr> # sent s\<rparr>"

text \<open>The body of the \<^verbatim>\<open>try\<close> of \<^verbatim>\<open>analyze\<close>; \<open>Inl\<close> is a throw (a rejected \<^verbatim>\<open>fetch\<close>, a
  rejected \<^verbatim>\<open>res.json()\<close>, or the \<^verbatim>\<open>throw new Error\<close> of a response that is not ok).\<close>

definition analyze_try :: "fetch_outcome \<Rightarrow> blob \<Rightarrow> page \<Rightarrow> (js_error \<times> page) + page" where
  "analyze_try out b s =
     (let s1 = post b (setStepIndex 1 s) in
      case out of
        FetchRejected m \<Rightarrow> Inl (Error m, s1)
      | Responded ok body \<Rightarrow>
          (case body of
             JsonRejected m \<Rightarrow> Inl (Error m, s1)
           | Parsed data \<Rightarrow>
               if \<not> ok then Inl (Error (service_message data), s1)
               else Inr (stmts [setStepIndex 2, setResult data, setMode Result] s1)))"

text \<open>\<^verbatim>\<open>e.message || "Something went wrong."\<close>\<close>

definition message_or_default :: "js_error \<Rightarrow> string" where
  "message_or_default e = (if message e = [] then ''Something went wrong.'' else message e)"

definition analyze :: "fetch_outcome \<Rightarrow> page \<Rightarrow> page" where
  "analyze out s =
     (case imageBlob s of
        None \<Rightarrow> s
      | Some b \<Rightarrow>
          (let s0 = stmts [setBusy True, setError None, setResult None, setMode Analyzing,
                           setStepIndex 0] s;
               s1 = (case analyze_try out b s0 of
                       Inr s' \<Rightarrow> s'
                     | Inl (e, s') \<Rightarrow>
                         stmts [setMode Preview, setError (Some (message_or_default e))] s')
           in setBusy False s1))"

section \<open>What the page shows of a result\<close>

text \<open>JavaScript truthiness of a boolean field: only \<^verbatim>\<open>true\<close> is truthy.\<close>

definition truthy :: "bool field \<Rightarrow> bool" where
  "truthy b = (case b of Present v \<Rightarrow> v | _ \<Rightarrow> False)"

text \<open>\<^verbatim>\<open>x || 0\<close> on a numeric field.\<close>

definition num_or_zero :: "real field \<Rightarrow> real" where
  "num_or_zero x = (case x of Present v \<Rightarrow> if v = 0 then 0 else v | _ \<Rightarrow> 0)"

text \<open>\<^verbatim>\<open>Math.round\<close> rounds to the nearest integer, halves upwards. Numbers are exact
  reals here; the page computes with IEEE doubles, so a product such as \<open>0.285 * 100\<close> can
  fall on the other side of a half there.\<close>

definition Math_round :: "real \<Rightarrow> int" where
  "Math_round x = \<lfloor>x + 1 / 2\<rfloor>"

fun show_nat :: "nat \<Rightarrow> string" where
  "show_nat n =
     (if n < 10 then [''0123456789'' ! n]
      else show_nat (n div 10) @ [''0123456789'' ! (n mod 10)])"

declare show_nat.simps [simp del]

text \<open>Decimal digits of an integer, as a template literal prints a number below
  \<open>10\<^sup>2\<^sup>1\<close> in absolute value (beyond that JavaScript switches to exponent form).\<close>

definition show_int :: "int \<Rightarrow> string" where
  "show_int i = (if i < 0 then CHR ''-'' # show_nat (nat (- i)) else show_nat (nat i))"

definition formatPct :: "real field \<Rightarrow> string" where
  "formatPct x =
     (case x of
        Present v \<Rightarrow> show_int (Math_round (v * 100)) @ ''%''
      | _ \<Rightarrow> [])"

text \<open>The width of the confidence bar, in percent:
  \<^verbatim>\<open>Math.min(100, Math.max(0, (result.confidence || 0) * 100))\<close>. The product is the exact
  real one; the double product of the page can differ from it in the last place.\<close>

definition barWidth :: "response_data \<Rightarrow> real" where
  "barWidth d = min 100 (max 0 (num_or_zero (confidence d) * 100))"

text \<open>\<^verbatim>\<open>result?.warnings?.too_dark\<close> and \<^verbatim>\<open>result?.warnings?.too_blurry\<close>\<close>

definition warning :: "(warning_flags \<Rightarrow> bool field) \<Rightarrow> response_data \<Rightarrow> bool" where
  "warning flag d = (case warnings d of Present w \<Rightarrow> truthy (flag w) | _ \<Rightarrow> False)"

record meta_row =
  banana_confidence_text :: string
  too_dark_pill :: bool
  too_blurry_pill :: bool

definition metaRow :: "response_data \<Rightarrow> meta_row" where
  "metaRow d = \<lparr> banana_confidence_text = formatPct (banana_confidence d),
                 too_dark_pill = warning too_dark d,
                 too_blurry_pill = warning too_blurry d \<rparr>"

text \<open>The block under the Analyze bar: the no-banana alert with its pills, or the result
  card with the ripeness label, the confidence text, the bar width and the pills. (The tip
  text is static presentation and left out.)\<close>

datatype result_view =
    NoBananaDetected meta_row
  | BananaDetected "string field" string real meta_row

definition resultView :: "page \<Rightarrow> result_view option" where
  "resultView s =
     (if mode s = Result
      then (case result s of
              None \<Rightarrow> None
            | Some d \<Rightarrow>
                Some (if \<not> truthy (is_banana d) then NoBananaDetected (metaRow d)
                      else BananaDetected (ripeness d) (formatPct (confidence d)) (barWidth d)
                             (metaRow d)))
      else None)"

section \<open>The workflow as the user drives it\<close>

text \<open>
  One event is one click (or one file chosen) together with what the browser answers
  while the handler runs. The buttons ``Use Camera'' and ``Upload from Gallery'' and the
  file input are rendered only while \<^verbatim>\<open>mode !== "camera"\<close>, ``Back'' and ``Capture'' only
  while \<^verbatim>\<open>mode === "camera"\<close>; ``Reset'' is always there; ``Analyze'' carries
  \<^verbatim>\<open>disabled={!canAnalyze}\<close>, and a disabled button dispatches no click. Choosing a file
  is \<^verbatim>\<open>pickFromGallery\<close> (the click that opens the dialog) followed by the input's change
  event.
\<close>

datatype event =
    OpenCamera camera_outcome
  | CloseCamera
  | Capture bool
  | SelectFile "nat option"
  | Analyze fetch_outcome
  | Reset

fun enabled :: "event \<Rightarrow> page \<Rightarrow> bool" where
  "enabled (OpenCamera out) s = (mode s \<noteq> Camera)"
| "enabled CloseCamera s = (mode s = Camera)"
| "enabled (Capture encoded) s = (mode s = Camera)"
| "enabled (SelectFile file) s = (mode s \<noteq> Camera)"
| "enabled (Analyze out) s = canAnalyze s"
| "enabled Reset s = True"

fun handler :: "event \<Rightarrow> page \<Rightarrow> page" where
  "handler (OpenCamera out) s = openCamera out s"
| "handler CloseCamera s = closeCamera s"
| "handler (Capture encoded) s = capturePhoto encoded s"
| "handler (SelectFile file) s = onFileSelected file (pickFromGallery s)"
| "handler (Analyze out) s = analyze out s"
| "handler Reset s = resetAll s"

definition step :: "event \<Rightarrow> page \<Rightarrow> page" where
  "step e s = (if enabled e s then render (handler e s) else s)"

fun run :: "event list \<Rightarrow> page \<Rightarrow> page" where
  "run [] s = s"
| "run (e # es) s = run es (step e s)"

section \<open>Inputs used in the examples\<close>

text \<open>A fetch has failed when it is rejected, when the body cannot be parsed, or when the
  response is not ok: the three ways into the \<^verbatim>\<open>catch\<close> of \<^verbatim>\<open>analyze\<close>.\<close>

fun failed :: "fetch_outcome \<Rightarrow> bool" where
  "failed (FetchRejected m) = True"
| "failed (Responded ok (JsonRejected m)) = True"
| "failed (Responded ok (Parsed data)) = (\<not> ok)"

text \<open>The body \<^verbatim>\<open>{is_banana:false, banana_confidence:0.3, warnings:{too_dark:true}}\<close>.\<close>

definition not_a_banana :: response_data where
  "not_a_banana = \<lparr> is_banana = Present False, ripeness = Absent, confidence = Absent,
     banana_confidence = Present 0.3,
     warnings = Present \<lparr>too_dark = Present True, too_blurry = Absent\<rparr>,
     error_msg = Absent \<rparr>"

text \<open>The body \<^verbatim>\<open>{is_banana:true, ripeness:"Ripe", confidence:1.7, banana_confidence:0.95}\<close>,
  with a confidence above 1.\<close>

definition overconfident :: response_data where
  "overconfident = \<lparr> is_banana = Present True, ripeness = Present ''Ripe'',
     confidence = Present 1.7, banana_confidence = Present 0.95,
     warnings = Absent, error_msg = Absent \<rparr>"

text \<open>The body \<^verbatim>\<open>{is_banana:true, ripeness:"Turning", confidence:0.5, banana_confidence:0.9}\<close>.\<close>

definition half_confident :: response_data where
  "half_confident = \<lparr> is_banana = Present True, ripeness = Present ''Turning'',
     confidence = Present 0.5, banana_confidence = Present 0.9,
     warnings = Absent, error_msg = Absent \<rparr>"

text \<open>The body \<^verbatim>\<open>{is_banana:true, ripeness:"Green", banana_confidence:null}\<close>, with no
  confidence.\<close>

definition no_confidence :: response_data where
  "no_confidence = \<lparr> is_banana = Present True, ripeness = Present ''Green'',
     confidence = Absent, banana_confidence = JNull,
     warnings = Absent, error_msg = Absent \<rparr>"

section \<open>Properties\<close>

lemmas setters = setMode_def setImageURL_def setImageBlob_def setStepIndex_def setError_def
  setResult_def setBusy_def

lemmas browser_calls = createObjectURL_def getUserMedia_def post_def render_def

lemmas handlers = openCamera_def openCamera_try_def stopCamera_def closeCamera_def
  capturePhoto_def pickFromGallery_def onFileSelected_def resetAll_def analyze_def
  analyze_try_def message_or_default_def or_default_def

subsection \<open>The guard of analyze\<close>

text \<open>The function \<^verbatim>\<open>analyze\<close> itself returns at once when no blob is held.\<close>

lemma analyze_without_blob: "imageBlob s = None \<Longrightarrow> analyze out s = s"
  by (simp add: analyze_def)

text \<open>
  Claim C1. In every state, invoking the analyze operation while no image artifact is held
  or while \<open>busy\<close> is true changes nothing: the whole state, and so the mode, the artifact,
  the result, the error, the busy flag and the progress stage, is as before, whatever the
  service would have answered. Without a blob the handler returns at its first line; while
  busy the button is disabled (\<^verbatim>\<open>disabled={!canAnalyze}\<close>) and the handler is not called.
\<close>

theorem analyze_guard_noop:
  "imageBlob s = None \<or> busy s \<Longrightarrow> step (Analyze out) s = s"
  by (auto simp: step_def canAnalyze_def)

theorem analyze_guard_noop_witness:
  "busy (init\<lparr>imageBlob := Some (UserFile 0), busy := True\<rparr>) \<and>
   step (Analyze (Responded True (Parsed None))) (init\<lparr>imageBlob := Some (UserFile 0), busy := True\<rparr>)
     = init\<lparr>imageBlob := Some (UserFile 0), busy := True\<rparr> \<and>
   imageBlob init = None \<and>
   step (Analyze (Responded True (Parsed None))) init = init"
  using analyze_guard_noop [of "init\<lparr>imageBlob := Some (UserFile 0), busy := True\<rparr>"
      "Responded True (Parsed None)"]
    analyze_guard_noop [of init "Responded True (Parsed None)"]
  by (simp add: init_def)

subsection \<open>The progress stage during analyze\<close>

text \<open>A successful analyze passes 0, 1, 2 to \<^verbatim>\<open>setStepIndex\<close>, in this order.\<close>

lemma analyze_success_stages:
  "imageBlob s = Some b \<Longrightarrow>
   stepLog (analyze (Responded True (Parsed data)) s) = stepLog s @ [0, 1, 2] \<and>
   stepIndex (analyze (Responded True (Parsed data)) s) = 2"
  by (simp add: analyze_def analyze_try_def setters browser_calls Let_def)

text \<open>A failed analyze passes 0 and 1, and the \<^verbatim>\<open>catch\<close> leaves the index at 1.\<close>

lemma analyze_failure_stage:
  "imageBlob s = Some b \<Longrightarrow> failed out \<Longrightarrow>
   stepLog (analyze out s) = stepLog s @ [0, 1] \<and> stepIndex (analyze out s) = 1 \<and>
   mode (analyze out s) = Preview"
  by (cases out rule: failed.cases)
     (simp_all add: analyze_def analyze_try_def setters browser_calls Let_def)

text \<open>
  Claim C2. The claim asks that a failed analyze ends with the progress stage cleared. The
  code does not do so: after a file is selected and the request is rejected by the
  transport, the page is back in Preview with \<open>stepIndex = 1\<close>, the stage ``Banana Check''.
\<close>

theorem analyze_failure_leaves_stage:
  "mode (run [SelectFile (Some 0), Analyze (FetchRejected ''Failed to fetch'')] init) = Preview \<and>
   stepIndex (run [SelectFile (Some 0), Analyze (FetchRejected ''Failed to fetch'')] init) = 1 \<and>
   stepLog (run [SelectFile (Some 0), Analyze (FetchRejected ''Failed to fetch'')] init)
     = [- 1, 0, 1]"
  by code_simp

subsection \<open>The invariant of the workflow state\<close>

text \<open>The part on the result holds: one step keeps ``a result is held only in Result''.\<close>

lemma result_only_in_Result:
  "(result s \<noteq> None \<longrightarrow> mode s = Result) \<Longrightarrow>
   result (step e s) \<noteq> None \<longrightarrow> mode (step e s) = Result"
  by (cases e)
     (auto simp: step_def canAnalyze_def handlers setters browser_calls Let_def
           split: option.splits camera_outcome.splits fetch_outcome.splits json_outcome.splits
                  sum.splits prod.splits if_splits)

text \<open>
  Claim C3. The claim asks that, in every reachable state, a progress stage is set only in
  Analyzing or Result, a result is held only in Result, and a camera session exists only in
  CameraOpen. Two reachable states break it. After a file selection and a failed analyze
  the mode is Preview and the stage is 1. After a file selection, an opened camera and an
  analyze of the image already held (the Analyze button is enabled in camera mode), the
  mode is Result while \<open>streamRef\<close> still holds the stream and its tracks still run.
\<close>

theorem workflow_invariant_broken:
  "mode (run [SelectFile (Some 0), Analyze (FetchRejected ''Failed to fetch'')] init) = Preview \<and>
   stepIndex (run [SelectFile (Some 0), Analyze (FetchRejected ''Failed to fetch'')] init) = 1 \<and>
   mode (run [SelectFile (Some 0), OpenCamera (Granted 640 480 None),
              Analyze (Responded True (Parsed (Some not_a_banana)))] init) = Result \<and>
   streamRef (run [SelectFile (Some 0), OpenCamera (Granted 640 480 None),
              Analyze (Responded True (Parsed (Some not_a_banana)))] init) = Some 0 \<and>
   liveStreams (run [SelectFile (Some 0), OpenCamera (Granted 640 480 None),
              Analyze (Responded True (Parsed (Some not_a_banana)))] init) = [0]"
  by code_simp

subsection \<open>Preview handles\<close>

text \<open>
  Claim C4, as stated, fails: the page never calls \<^verbatim>\<open>URL.revokeObjectURL\<close>. After two
  file selections both object URLs are live, and they still are after a reset.
\<close>

theorem preview_handles_accumulate:
  "objectURLs (run [SelectFile (Some 0), SelectFile (Some 1)] init) = [1, 0] \<and>
   objectURLs (run [SelectFile (Some 0), SelectFile (Some 1), Reset] init) = [1, 0]"
  by code_simp

text \<open>
  Claim C4, amended. No operation releases a preview handle: every handle live before an
  operation is live after it, and an operation creates at most one. Reset keeps them all
  and only drops the page's reference. A file selection (outside camera mode) and a
  successful capture (in camera mode, with the video mounted) each create exactly one new
  handle and make it the preview; the handle of the superseded artifact stays live.
\<close>

theorem preview_handles_never_released:
  "(\<exists>new. objectURLs (step e s) = new @ objectURLs s \<and> length new \<le> 1) \<and>
   objectURLs (step Reset s) = objectURLs s \<and>
   objectURLs (step (SelectFile (Some f)) s) =
     (if mode s = Camera then objectURLs s else nextURL s # objectURLs s) \<and>
   imageURL (step (SelectFile (Some f)) s) =
     (if mode s = Camera then imageURL s else Some (nextURL s)) \<and>
   objectURLs (step (Capture True) s) =
     (if mode s = Camera \<and> videoRef s \<noteq> None then nextURL s # objectURLs s else objectURLs s) \<and>
   imageURL (step (Capture True) s) =
     (if mode s = Camera \<and> videoRef s \<noteq> None then Some (nextURL s) else imageURL s)"
proof -
  have "\<exists>new. objectURLs (step e s) = new @ objectURLs s \<and> length new \<le> 1"
    by (cases e)
       (auto simp: step_def canAnalyze_def handlers setters browser_calls Let_def
             split: option.splits camera_outcome.splits fetch_outcome.splits json_outcome.splits
                    sum.splits prod.splits if_splits)
  moreover have "objectURLs (step Reset s) = objectURLs s"
    by (simp add: step_def handlers setters browser_calls split: option.splits)
  moreover have "objectURLs (step (SelectFile (Some f)) s) =
     (if mode s = Camera then objectURLs s else nextURL s # objectURLs s)"
    by (simp add: step_def handlers setters browser_calls)
  moreover have "imageURL (step (SelectFile (Some f)) s) =
     (if mode s = Camera then imageURL s else Some (nextURL s))"
    by (simp add: step_def handlers setters browser_calls)
  moreover have "objectURLs (step (Capture True) s) =
     (if mode s = Camera \<and> videoRef s \<noteq> None then nextURL s # objectURLs s else objectURLs s)"
    by (auto simp: step_def handlers setters browser_calls Let_def split: option.splits)
  moreover have "imageURL (step (Capture True) s) =
     (if mode s = Camera \<and> videoRef s \<noteq> None then Some (nextURL s) else imageURL s)"
    by (auto simp: step_def handlers setters browser_calls Let_def split: option.splits)
  ultimately show ?thesis by blast
qed

subsection \<open>Failures of analyze\<close>

text \<open>
  The paths that do what is asked. Let analyze be enabled. A response with a failure
  status whose body parses as JSON ends in Preview with the error set to the body's error
  string if there is one and it is not empty, else to \<open>''Failed to analyze image.''\<close>. A
  failed transport ends in Preview with the transport's message (\<open>''Something went wrong.''\<close>
  if it is empty). In both cases the result is cleared and busy ends false.
\<close>

lemma analyze_failure_paths:
  assumes "canAnalyze s"
  shows "mode (step (Analyze (Responded False (Parsed data))) s) = Preview \<and>
         result (step (Analyze (Responded False (Parsed data))) s) = None \<and>
         \<not> busy (step (Analyze (Responded False (Parsed data))) s) \<and>
         error (step (Analyze (Responded False (Parsed data))) s) =
           Some (case data of
                   None \<Rightarrow> ''Failed to analyze image.''
                 | Some d \<Rightarrow>
                     (case error_msg d of
                        Present m \<Rightarrow> if m = [] then ''Failed to analyze image.'' else m
                      | _ \<Rightarrow> ''Failed to analyze image.'')) \<and>
         mode (step (Analyze (FetchRejected m)) s) = Preview \<and>
         result (step (Analyze (FetchRejected m)) s) = None \<and>
         \<not> busy (step (Analyze (FetchRejected m)) s) \<and>
         error (step (Analyze (FetchRejected m)) s) =
           Some (if m = [] then ''Something went wrong.'' else m)"
proof -
  obtain b where b: "imageBlob s = Some b"
    using assms by (auto simp: canAnalyze_def)
  have generic: "service_message data \<noteq> []"
    by (simp add: service_message_def split: option.splits field.splits)
  show ?thesis
    using b generic assms
    by (simp add: step_def analyze_def analyze_try_def service_message_def setters
          browser_calls message_or_default_def Let_def)
qed

text \<open>
  Claim C5. The claim asks that a response with a failure status ends in Preview with the
  service's error message if present, else with \<open>''Failed to analyze image.''\<close>. The code
  aims at this (\<^verbatim>\<open>throw new Error(data?.error || "Failed to analyze image.")\<close> under
  \<^verbatim>\<open>if (!res.ok)\<close>) but awaits \<^verbatim>\<open>res.json()\<close> before it looks at \<^verbatim>\<open>res.ok\<close>. For a
  response with a failure status whose body is not JSON (an HTML error page, say) the
  parse throws first, and the page ends in Preview showing the parser's message, which is
  neither a message of the service nor the generic one.
\<close>

theorem non_json_error_body:
  "mode (run [SelectFile (Some 0),
               Analyze (Responded False (JsonRejected ''Unexpected token < in JSON at position 0''))] init)
     = Preview \<and>
   error (run [SelectFile (Some 0),
               Analyze (Responded False (JsonRejected ''Unexpected token < in JSON at position 0''))] init)
     = Some ''Unexpected token < in JSON at position 0''"
  by code_simp

subsection \<open>Capture\<close>

text \<open>After any enabled event, a page in camera mode has its video element mounted.\<close>

lemma camera_mode_has_video:
  "enabled e s \<Longrightarrow> mode (step e s) = Camera \<Longrightarrow> videoRef (step e s) \<noteq> None"
  by (auto simp: step_def render_def split: option.splits if_splits)

text \<open>
  Claim C6. In camera mode with the video element \<open>v\<close> mounted, a capture whose frame is
  encoded stores a JPEG blob of quality 0.92 with the size of the video frame (1280 for a
  width of 0, 720 for a height of 0), stores its preview URL, clears error and result,
  moves to Preview, and in the same operation stops the held stream and clears
  \<open>streamRef\<close>. A capture whose frame is not encoded leaves the stream running and held,
  stays in camera mode, keeps the artifact as it was, and sets the error.
\<close>

theorem capture_photo:
  assumes "mode s = Camera" and "videoRef s = Some v"
  shows "imageBlob (step (Capture True) s) =
           Some (CanvasBlob (if videoWidth v = 0 then 1280 else videoWidth v)
                            (if videoHeight v = 0 then 720 else videoHeight v)
                            ''image/jpeg'' 0.92) \<and>
         imageURL (step (Capture True) s) = Some (nextURL s) \<and>
         mode (step (Capture True) s) = Preview \<and>
         error (step (Capture True) s) = None \<and>
         result (step (Capture True) s) = None \<and>
         streamRef (step (Capture True) s) = None \<and>
         liveStreams (step (Capture True) s) =
           (case streamRef s of None \<Rightarrow> liveStreams s
            | Some stream \<Rightarrow> removeAll stream (liveStreams s)) \<and>
         mode (step (Capture False) s) = Camera \<and>
         error (step (Capture False) s) = Some ''Could not capture image. Please try again.'' \<and>
         streamRef (step (Capture False) s) = streamRef s \<and>
         liveStreams (step (Capture False) s) = liveStreams s \<and>
         imageBlob (step (Capture False) s) = imageBlob s \<and>
         imageURL (step (Capture False) s) = imageURL s"
  using assms
  by (simp add: step_def handlers setters browser_calls Let_def split: option.splits)

theorem capture_photo_witness:
  "mode (step (OpenCamera (Granted 0 0 None)) init) = Camera \<and>
   videoRef (step (OpenCamera (Granted 0 0 None)) init)
     = Some \<lparr>videoWidth = 0, videoHeight = 0, srcObject = Some 0\<rparr> \<and>
   imageBlob (step (Capture True) (step (OpenCamera (Granted 0 0 None)) init))
     = Some (CanvasBlob 1280 720 ''image/jpeg'' 0.92) \<and>
   liveStreams (step (Capture True) (step (OpenCamera (Granted 0 0 None)) init)) = [] \<and>
   liveStreams (step (Capture False) (step (OpenCamera (Granted 0 0 None)) init)) = [0] \<and>
   mode (step (Capture False) (step (OpenCamera (Granted 0 0 None)) init)) = Camera"
proof -
  have m: "mode (step (OpenCamera (Granted 0 0 None)) init) = Camera"
    by code_simp
  have v: "videoRef (step (OpenCamera (Granted 0 0 None)) init)
     = Some \<lparr>videoWidth = 0, videoHeight = 0, srcObject = Some 0\<rparr>"
    by code_simp
  have r: "streamRef (step (OpenCamera (Granted 0 0 None)) init) = Some 0"
    by code_simp
  have l: "liveStreams (step (OpenCamera (Granted 0 0 None)) init) = [0]"
    by code_simp
  show ?thesis
    using m v capture_photo [OF m v] by (simp add: r l)
qed

subsection \<open>Reset\<close>

text \<open>
  What reset does, from every state: mode Idle, no preview URL and no blob, no result, no
  error, busy false, the progress stage back to -1, \<open>streamRef\<close> empty and no video
  element. Of the running streams it stops the one \<open>streamRef\<close> held, and no other.
\<close>

lemma reset_yields_idle:
  "mode (step Reset s) = Idle \<and> imageURL (step Reset s) = None \<and>
   imageBlob (step Reset s) = None \<and> result (step Reset s) = None \<and>
   error (step Reset s) = None \<and> \<not> busy (step Reset s) \<and> stepIndex (step Reset s) = - 1 \<and>
   streamRef (step Reset s) = None \<and> videoRef (step Reset s) = None \<and>
   liveStreams (step Reset s) =
     (case streamRef s of None \<Rightarrow> liveStreams s | Some stream \<Rightarrow> removeAll stream (liveStreams s))"
  by (simp add: step_def handlers setters browser_calls split: option.splits)

text \<open>
  Claim C7. The claim asks that reset, from any reachable state, leaves no camera session.
  The code leaves one where a stream runs that \<open>streamRef\<close> no longer holds. Select a
  file, open the camera, analyze the file from camera mode, open the camera again, reset:
  the page is Idle with \<open>streamRef\<close> empty, and the first stream still runs. The same
  happens when \<^verbatim>\<open>video.play()\<close> rejects after the stream was obtained, the camera is
  opened again, and the page is reset.
\<close>

theorem reset_leaves_stream_running:
  "mode (run [SelectFile (Some 0), OpenCamera (Granted 640 480 None),
              Analyze (FetchRejected ''Failed to fetch''),
              OpenCamera (Granted 640 480 None), Reset] init) = Idle \<and>
   streamRef (run [SelectFile (Some 0), OpenCamera (Granted 640 480 None),
              Analyze (FetchRejected ''Failed to fetch''),
              OpenCamera (Granted 640 480 None), Reset] init) = None \<and>
   liveStreams (run [SelectFile (Some 0), OpenCamera (Granted 640 480 None),
              Analyze (FetchRejected ''Failed to fetch''),
              OpenCamera (Granted 640 480 None), Reset] init) = [0] \<and>
   liveStreams (run [OpenCamera (Granted 640 480 (Some ''The play() request was interrupted'')),
              OpenCamera (Granted 640 480 None), Reset] init) = [0]"
  by code_simp

subsection \<open>A response that says ``not a banana''\<close>

text \<open>
  Claim C8. Let analyze be enabled. A successful response whose body has
  \<open>is_banana = false\<close> ends in Result with that body as the result, no error, and busy
  false; the page shows the no-banana alert with the banana confidence, the pill
  ``Too dark'' exactly when the body's warnings have \<open>too_dark = true\<close>, and the pill
  ``Too blurry'' exactly when they have \<open>too_blurry = true\<close>.
\<close>

theorem not_a_banana_is_a_result:
  assumes "canAnalyze s" and "is_banana d = Present False"
  shows "mode (step (Analyze (Responded True (Parsed (Some d)))) s) = Result \<and>
         result (step (Analyze (Responded True (Parsed (Some d)))) s) = Some d \<and>
         error (step (Analyze (Responded True (Parsed (Some d)))) s) = None \<and>
         \<not> busy (step (Analyze (Responded True (Parsed (Some d)))) s) \<and>
         resultView (step (Analyze (Responded True (Parsed (Some d)))) s) =
           Some (NoBananaDetected
             \<lparr> banana_confidence_text = formatPct (banana_confidence d),
               too_dark_pill = (\<exists>w. warnings d = Present w \<and> too_dark w = Present True),
               too_blurry_pill = (\<exists>w. warnings d = Present w \<and> too_blurry w = Present True) \<rparr>)"
proof -
  obtain b where b: "imageBlob s = Some b"
    using assms(1) by (auto simp: canAnalyze_def)
  have w: "\<And>flag. warning flag d = (\<exists>w. warnings d = Present w \<and> flag w = Present True)"
    by (auto simp: warning_def truthy_def split: field.splits)
  show ?thesis
    using b assms
    by (simp add: step_def analyze_def analyze_try_def setters browser_calls Let_def
          resultView_def metaRow_def w truthy_def)
qed

theorem not_a_banana_is_a_result_witness:
  "canAnalyze (run [SelectFile (Some 0)] init) \<and> is_banana not_a_banana = Present False \<and>
   mode (step (Analyze (Responded True (Parsed (Some not_a_banana)))) (run [SelectFile (Some 0)] init))
     = Result \<and>
   error (step (Analyze (Responded True (Parsed (Some not_a_banana)))) (run [SelectFile (Some 0)] init))
     = None \<and>
   resultView (step (Analyze (Responded True (Parsed (Some not_a_banana)))) (run [SelectFile (Some 0)] init))
     = Some (NoBananaDetected
         \<lparr> banana_confidence_text = ''30%'', too_dark_pill = True, too_blurry_pill = False \<rparr>)"
proof -
  have c: "canAnalyze (run [SelectFile (Some 0)] init)"
    by code_simp
  have i: "is_banana not_a_banana = Present False"
    by (simp add: not_a_banana_def)
  have p: "formatPct (banana_confidence not_a_banana) = ''30%''"
    by code_simp
  show ?thesis
    using c i not_a_banana_is_a_result [OF c i]
    by (simp add: p) (simp add: not_a_banana_def)
qed

subsection \<open>Camera sessions\<close>

text \<open>
  Claim C9. The claim asks that there is never more than one live camera session. The
  code allows two: select a file, open the camera, analyze the file from camera mode
  (which leaves camera mode without stopping the stream), open the camera again. Both
  streams then run, and \<open>streamRef\<close> holds only the second, so nothing can stop the first.
\<close>

theorem second_camera_session:
  "liveStreams (run [SelectFile (Some 0), OpenCamera (Granted 640 480 None),
                     Analyze (FetchRejected ''Failed to fetch''),
                     OpenCamera (Granted 640 480 None)] init) = [1, 0] \<and>
   streamRef (run [SelectFile (Some 0), OpenCamera (Granted 640 480 None),
                     Analyze (FetchRejected ''Failed to fetch''),
                     OpenCamera (Granted 640 480 None)] init) = Some 1"
  by code_simp

subsection \<open>The confidence bar\<close>

lemma barWidth_range: "0 \<le> barWidth d \<and> barWidth d \<le> 100"
  by (simp add: barWidth_def)

lemma barWidth_clamp:
  "barWidth d =
     (case confidence d of
        Present c \<Rightarrow> if c \<le> 0 then 0 else if 1 \<le> c then 100 else c * 100
      | _ \<Rightarrow> 0)"
  by (auto simp: barWidth_def num_or_zero_def min_def max_def split: field.splits)

text \<open>
  Claim C10. Whenever the page shows a result card, it is in Result with a result held,
  and the width of the confidence bar is that result's confidence in percent, clamped to
  the range from 0 to 100: 0 when the confidence is missing, null or not above 0, 100 when
  it is 1 or more, and 100 times the confidence in between.
\<close>

theorem confidence_bar_clamped:
  "resultView s = Some (BananaDetected label text width row) \<Longrightarrow>
   0 \<le> width \<and> width \<le> 100 \<and>
   (\<exists>d. mode s = Result \<and> result s = Some d \<and>
        width = (case confidence d of
                   Present c \<Rightarrow> if c \<le> 0 then 0 else if 1 \<le> c then 100 else c * 100
                 | _ \<Rightarrow> 0))"
  by (auto simp: resultView_def barWidth_clamp split: if_splits option.splits field.splits)

theorem confidence_bar_clamped_witness:
  "resultView (run [SelectFile (Some 0), Analyze (Responded True (Parsed (Some overconfident)))] init)
     = Some (BananaDetected (Present ''Ripe'') ''170%'' 100
         \<lparr> banana_confidence_text = ''95%'', too_dark_pill = False, too_blurry_pill = False \<rparr>) \<and>
   resultView (run [SelectFile (Some 0), Analyze (Responded True (Parsed (Some half_confident)))] init)
     = Some (BananaDetected (Present ''Turning'') ''50%'' 50
         \<lparr> banana_confidence_text = ''90%'', too_dark_pill = False, too_blurry_pill = False \<rparr>) \<and>
   resultView (run [SelectFile (Some 0), Analyze (Responded True (Parsed (Some no_confidence)))] init)
     = Some (BananaDetected (Present ''Green'') [] 0
         \<lparr> banana_confidence_text = [], too_dark_pill = False, too_blurry_pill = False \<rparr>) \<and>
   (0::real) \<le> 100 \<and> (100::real) \<le> 100 \<and> (0::real) \<le> 50 \<and> (50::real) \<le> 100"
proof -
  have v: "resultView (run [SelectFile (Some 0), Analyze (Responded True (Parsed (Some overconfident)))] init)
     = Some (BananaDetected (Present ''Ripe'') ''170%'' 100
         \<lparr> banana_confidence_text = ''95%'', too_dark_pill = False, too_blurry_pill = False \<rparr>)"
    by code_simp
  have h: "resultView (run [SelectFile (Some 0), Analyze (Responded True (Parsed (Some half_confident)))] init)
     = Some (BananaDetected (Present ''Turning'') ''50%'' 50
         \<lparr> banana_confidence_text = ''90%'', too_dark_pill = False, too_blurry_pill = False \<rparr>)"
    by code_simp
  have n: "resultView (run [SelectFile (Some 0), Analyze (Responded True (Parsed (Some no_confidence)))] init)
     = Some (BananaDetected (Present ''Green'') [] 0
         \<lparr> banana_confidence_text = [], too_dark_pill = False, too_blurry_pill = False \<rparr>)"
    by code_simp
  show ?thesis
    using v h n confidence_bar_clamped [OF v] confidence_bar_clamped [OF h]
      confidence_bar_clamped [OF n]
    by simp
qed

end
